theory Spec2Isabelle
  imports Complex_Main "HOL-Library.Log_Nat"
begin

section \<open>The ESA WorldCover notebook\<close>

text \<open>
  The program is the notebook \<^verbatim>\<open>datasets/esa-worldcover/esa-worldcover-example.ipynb\<close>:
  its code cells run in order, each a handful of calls into pystac-client, rasterio and
  matplotlib. The model keeps the notebook's own statements (indexing, dictionary lookups,
  the list comprehension, the arguments handed to each library call) and takes the three
  libraries as parameters: an environment of response functions. Every library call is
  logged as an event, so that what the notebook hands to a library can be stated.

  A Python float is modelled by the rational number it denotes. The notebook only passes
  floats on, apart from the division by 255 of the colour table, which is modelled with
  its rounding to binary64.
\<close>

subsection \<open>Data\<close>

text \<open>A Python dict is an association list, looked up with \<^const>\<open>map_of\<close>.\<close>

type_synonym ('k, 'v) dict = "('k \<times> 'v) list"

definition dict_len :: "('k, 'v) dict \<Rightarrow> nat" where
  "dict_len d = length (remdups (map fst d))"

datatype pykey = StrKey string | IntKey int

text \<open>
  The exceptions a run can end with. \<open>NoDataFound\<close> is the condition the specification
  asks for on an empty search result; no statement of the notebook raises it.
  \<open>LibraryError\<close> stands for whatever a library call raises itself.
\<close>

datatype error =
    IndexError
  | KeyError pykey
  | TypeError
  | NoDataFound
  | LibraryError string

record asset =
  href :: string

record item =
  item_id :: string
  assets :: "(string, asset) dict"

record affine =
  coef_a :: rat
  coef_b :: rat
  coef_c :: rat
  coef_d :: rat
  coef_e :: rat
  coef_f :: rat

record window =
  col_off :: rat
  row_off :: rat
  width :: rat
  height :: rat

text \<open>An opened raster: \<open>src.transform\<close>, \<open>src.read(band, window=w)\<close>, \<open>src.colormap(band)\<close>.\<close>

record dataset =
  ds_transform :: affine
  ds_read :: "nat \<Rightarrow> window \<Rightarrow> error + int list list"
  ds_colormap :: "nat \<Rightarrow> error + (int, int list) dict"

text \<open>
  The libraries. \<open>get_items\<close> is \<open>list(Client.open(url, modifier=sign_inplace)
  .search(collections=..., bbox=...).get_items())\<close>; \<open>rasterio_open k url\<close> is the
  \<open>k\<close>-th call of \<open>rasterio.open\<close> (the notebook opens the asset twice);
  \<open>from_bounds left bottom right top transform\<close> is \<open>rasterio.windows.from_bounds\<close>.
\<close>

record env =
  get_items :: "string \<Rightarrow> string list \<Rightarrow> rat list \<Rightarrow> error + item list"
  rasterio_open :: "nat \<Rightarrow> string \<Rightarrow> error + dataset"
  from_bounds :: "rat \<Rightarrow> rat \<Rightarrow> rat \<Rightarrow> rat \<Rightarrow> affine \<Rightarrow> error + window"

text \<open>The keyword arguments of \<open>ax.imshow\<close>; an argument not given is \<open>None\<close>.\<close>

record imshow_args =
  im_data :: "int list list"
  im_cmap :: "rat list list option"
  im_vmin :: "int option"
  im_vmax :: "int option"
  im_interpolation :: "string option"

datatype event =
    Search string "string list" "rat list"
  | Print string
  | Open string
  | FromBounds rat rat rat rat affine
  | Read nat window
  | Colormap nat
  | Close
  | Subplots nat nat
  | SetAxisOff
  | Imshow imshow_args

subsection \<open>Sequencing: a log of library calls and a result or an exception\<close>

type_synonym 'a io = "event list \<times> (error + 'a)"

definition ret :: "'a \<Rightarrow> 'a io" where
  "ret x = ([], Inr x)"

definition lift :: "error + 'a \<Rightarrow> 'a io" where
  "lift r = ([], r)"

definition call :: "event \<Rightarrow> error + 'a \<Rightarrow> 'a io" where
  "call ev r = ([ev], r)"

definition emit :: "event \<Rightarrow> unit io" where
  "emit ev = ([ev], Inr ())"

definition then_do :: "'a io \<Rightarrow> ('a \<Rightarrow> 'b io) \<Rightarrow> 'b io" where
  "then_do m k =
     (case m of
        (tr, Inl e) \<Rightarrow> (tr, Inl e)
      | (tr, Inr x) \<Rightarrow> (case k x of (tr', r) \<Rightarrow> (tr @ tr', r)))"

text \<open>
  \<open>with rasterio.open(url) as src: body\<close>. The dataset is closed when the body is left,
  also by an exception; an exception of \<open>open\<close> itself leaves nothing to close.
\<close>

definition with_open :: "env \<Rightarrow> nat \<Rightarrow> string \<Rightarrow> (dataset \<Rightarrow> 'a io) \<Rightarrow> 'a io" where
  "with_open ev k url body =
     (case rasterio_open ev k url of
        Inl e \<Rightarrow> ([Open url], Inl e)
      | Inr src \<Rightarrow> (case body src of (tr, r) \<Rightarrow> (Open url # tr @ [Close], r)))"

subsection \<open>Python primitives the notebook uses\<close>

text \<open>\<open>xs[0]\<close>\<close>

definition index0 :: "'a list \<Rightarrow> error + 'a" where
  "index0 xs = (case xs of [] \<Rightarrow> Inl IndexError | x # _ \<Rightarrow> Inr x)"

text \<open>\<open>d[k]\<close> on a dict with string keys, and with integer keys.\<close>

definition getitem_str :: "(string, 'v) dict \<Rightarrow> string \<Rightarrow> error + 'v" where
  "getitem_str d k = (case map_of d k of None \<Rightarrow> Inl (KeyError (StrKey k)) | Some v \<Rightarrow> Inr v)"

definition getitem_int :: "(int, 'v) dict \<Rightarrow> int \<Rightarrow> error + 'v" where
  "getitem_int d k = (case map_of d k of None \<Rightarrow> Inl (KeyError (IntKey k)) | Some v \<Rightarrow> Inr v)"

text \<open>\<open>s.split(c)\<close> for a separator of one character: never the empty list.\<close>

fun str_split :: "string \<Rightarrow> char \<Rightarrow> string list" where
  "str_split [] c = [[]]"
| "str_split (x # xs) c =
     (if x = c then [] # str_split xs c
      else (case str_split xs c of [] \<Rightarrow> [[x]] | w # ws \<Rightarrow> (x # w) # ws))"

text \<open>\<open>str(n)\<close> of a length, as the f-string prints it.\<close>

definition digit :: "nat \<Rightarrow> char" where
  "digit d = char_of (48 + d)"

function str_nat :: "nat \<Rightarrow> string" where
  "str_nat n = (if n < 10 then [digit n] else str_nat (n div 10) @ [digit (n mod 10)])"
  by pat_completeness auto
termination
  by (relation "measure id") auto

declare str_nat.simps [simp del]

text \<open>
  Division in binary64 (IEEE 754 double precision, round to nearest, ties to even), of
  one integer by another. \<open>rne_div p q\<close> is the integer nearest to \<open>p / q\<close>, the even one
  at a tie (\<open>q\<close> positive); \<open>floor_log2 p q\<close> is the exponent \<open>e\<close> with
  \<open>2^e \<le> |p| / q < 2^(e+1)\<close>; the quotient is rounded to 53 significant bits, that is
  to a multiple of \<open>2^(e-52)\<close>. The result is the rational the double denotes. Both
  integers are below \<open>2^53\<close> where the notebook divides, so their conversion to binary64
  is exact, and the quotients are far from overflow and from the subnormal range, which
  are left out.
\<close>

definition rne_div :: "int \<Rightarrow> int \<Rightarrow> int" where
  "rne_div p q =
     (let d = p div q; r = p mod q
      in if 2 * r < q then d else if q < 2 * r then d + 1 else if even d then d else d + 1)"

definition floor_log2 :: "int \<Rightarrow> int \<Rightarrow> int" where
  "floor_log2 p q =
     (let e0 = bitlen \<bar>p\<bar> - bitlen q
      in if (if 0 \<le> e0 then q * 2 ^ nat e0 \<le> \<bar>p\<bar> else q \<le> \<bar>p\<bar> * 2 ^ nat (- e0))
         then e0 else e0 - 1)"

definition float64_quot :: "int \<Rightarrow> int \<Rightarrow> rat" where
  "float64_quot p q =
     (if p = 0 then 0
      else let k = 52 - floor_log2 p q
           in if 0 \<le> k then of_int (rne_div (p * 2 ^ nat k) q) / 2 ^ nat k
              else of_int (rne_div p (q * 2 ^ nat (- k))) * 2 ^ nat (- k))"

text \<open>
  \<open>np.array(t) / 255\<close>: the tuple of integers becomes an integer array, and the true
  division gives a float64 array, every component divided by 255 in binary64.
\<close>

definition np_div255 :: "int list \<Rightarrow> rat list" where
  "np_div255 t = map (\<lambda>c. float64_quot c 255) t"

text \<open>The rounding error of one byte divided by 255: at most \<open>2^-53\<close> of the exact quotient.\<close>

definition close255 :: "nat \<Rightarrow> bool" where
  "close255 n \<longleftrightarrow>
     \<bar>float64_quot (int n) 255 - of_int (int n) / 255\<bar> \<le> of_int (int n) / 255 / 2 ^ 53"

text \<open>
  \<open>[np.array(colormap_def[i]) / 255 for i in range(len(colormap_def))]\<close>, the indices
  given as a list; the first missing key ends the comprehension with its KeyError.
\<close>

fun normalize_colormap_at :: "(int, int list) dict \<Rightarrow> int list \<Rightarrow> error + rat list list" where
  "normalize_colormap_at d [] = Inr []"
| "normalize_colormap_at d (i # js) =
     (case getitem_int d i of
        Inl e \<Rightarrow> Inl e
      | Inr t \<Rightarrow>
          (case normalize_colormap_at d js of
             Inl e \<Rightarrow> Inl e
           | Inr rs \<Rightarrow> Inr (np_div255 t # rs)))"

definition range_len :: "('k, 'v) dict \<Rightarrow> int list" where
  "range_len d = map int [0..<dict_len d]"

definition normalize_colormap :: "(int, int list) dict \<Rightarrow> error + rat list list" where
  "normalize_colormap d = normalize_colormap_at d (range_len d)"

subsection \<open>The cells\<close>

definition bbox_of_interest :: "rat list" where
  "bbox_of_interest = [33.984, 0.788, 34.902, 1.533]"

definition stac_url :: string where
  "stac_url = ''https://planetarycomputer.microsoft.com/api/stac/v1''"

definition collections :: "string list" where
  "collections = [''esa-worldcover'']"

text \<open>Cell 3: the search, and the count it prints.\<close>

definition cell_search :: "env \<Rightarrow> item list io" where
  "cell_search ev =
     then_do (call (Search stac_url collections bbox_of_interest)
                   (get_items ev stac_url collections bbox_of_interest))
       (\<lambda>items.
     then_do (emit (Print (''Returned '' @ str_nat (length items) @ '' Items'')))
       (\<lambda>_. ret items))"

text \<open>
  Cell 4: \<open>asset_href = items[0].assets["map"].href\<close> and
  \<open>print(asset_href.split("?")[0])\<close>.
\<close>

definition cell_href :: "item list \<Rightarrow> string io" where
  "cell_href items =
     then_do (lift (index0 items)) (\<lambda>it.
     then_do (lift (getitem_str (assets it) ''map'')) (\<lambda>a.
     then_do (lift (index0 (str_split (href a) CHR ''?''))) (\<lambda>shown.
     then_do (emit (Print shown)) (\<lambda>_.
     ret (href a)))))"

text \<open>
  \<open>windows.from_bounds(transform=src.transform, *bbox_of_interest)\<close>: the list is
  unpacked into the four positional parameters left, bottom, right, top.
\<close>

definition from_bounds_star :: "env \<Rightarrow> rat list \<Rightarrow> affine \<Rightarrow> window io" where
  "from_bounds_star ev args t =
     (case args of
        [l, b, r, tp] \<Rightarrow> call (FromBounds l b r tp t) (from_bounds ev l b r tp t)
      | _ \<Rightarrow> lift (Inl TypeError))"

text \<open>Cell 6: the windowed read of band 1, and the first picture.\<close>

definition cell_read :: "env \<Rightarrow> string \<Rightarrow> (window \<times> int list list) io" where
  "cell_read ev asset_href =
     then_do
       (with_open ev 0 asset_href (\<lambda>src.
          then_do (from_bounds_star ev bbox_of_interest (ds_transform src)) (\<lambda>aoi_window.
          then_do (call (Read 1 aoi_window) (ds_read src 1 aoi_window)) (\<lambda>raster_data.
          ret (aoi_window, raster_data)))))
       (\<lambda>(aoi_window, raster_data).
     then_do (emit (Subplots 12 12)) (\<lambda>_.
     then_do (emit SetAxisOff) (\<lambda>_.
     then_do (emit (Imshow \<lparr>im_data = raster_data, im_cmap = None, im_vmin = None,
                             im_vmax = None, im_interpolation = None\<rparr>)) (\<lambda>_.
     ret (aoi_window, raster_data)))))"

text \<open>
  Cell 7: the colour table of band 1, normalised, and the second picture.
  \<open>ListedColormap(colormap)\<close> wraps the list of rows; the model hands the rows themselves
  to \<open>imshow\<close>.
\<close>

definition cell_colormap ::
  "env \<Rightarrow> string \<Rightarrow> int list list \<Rightarrow> ((int, int list) dict \<times> rat list list) io" where
  "cell_colormap ev asset_href raster_data =
     then_do
       (with_open ev 1 asset_href (\<lambda>src.
          then_do (call (Colormap 1) (ds_colormap src 1)) (\<lambda>colormap_def.
          then_do (lift (normalize_colormap colormap_def)) (\<lambda>colormap.
          ret (colormap_def, colormap)))))
       (\<lambda>(colormap_def, colormap).
     then_do (emit (Subplots 12 12)) (\<lambda>_.
     then_do (emit SetAxisOff) (\<lambda>_.
     then_do (emit (Imshow \<lparr>im_data = raster_data, im_cmap = Some colormap,
                             im_vmin = Some 0,
                             im_vmax = Some (int (dict_len colormap_def) - 1),
                             im_interpolation = Some ''nearest''\<rparr>)) (\<lambda>_.
     ret (colormap_def, colormap)))))"

text \<open>The notebook's variables after the last cell.\<close>

record globals =
  g_items :: "item list"
  g_asset_href :: string
  g_aoi_window :: window
  g_raster_data :: "int list list"
  g_colormap_def :: "(int, int list) dict"
  g_colormap :: "rat list list"

definition notebook :: "env \<Rightarrow> globals io" where
  "notebook ev =
     then_do (cell_search ev) (\<lambda>items.
     then_do (cell_href items) (\<lambda>asset_href.
     then_do (cell_read ev asset_href) (\<lambda>(aoi_window, raster_data).
     then_do (cell_colormap ev asset_href raster_data) (\<lambda>(colormap_def, colormap).
     ret \<lparr>g_items = items, g_asset_href = asset_href, g_aoi_window = aoi_window,
          g_raster_data = raster_data, g_colormap_def = colormap_def,
          g_colormap = colormap\<rparr>))))"

subsection \<open>Reading the log\<close>

text \<open>The arguments of every call of one library function, in the order of the calls.\<close>

definition search_calls :: "event list \<Rightarrow> (string \<times> string list \<times> rat list) list" where
  "search_calls tr = concat (map (\<lambda>e. case e of Search u c b \<Rightarrow> [(u, c, b)] | _ \<Rightarrow> []) tr)"

definition open_calls :: "event list \<Rightarrow> string list" where
  "open_calls tr = concat (map (\<lambda>e. case e of Open u \<Rightarrow> [u] | _ \<Rightarrow> []) tr)"

definition from_bounds_calls :: "event list \<Rightarrow> (rat list \<times> affine) list" where
  "from_bounds_calls tr =
     concat (map (\<lambda>e. case e of FromBounds l b r t a \<Rightarrow> [([l, b, r, t], a)] | _ \<Rightarrow> []) tr)"

definition read_calls :: "event list \<Rightarrow> (nat \<times> window) list" where
  "read_calls tr = concat (map (\<lambda>e. case e of Read b w \<Rightarrow> [(b, w)] | _ \<Rightarrow> []) tr)"

definition colormap_calls :: "event list \<Rightarrow> nat list" where
  "colormap_calls tr = concat (map (\<lambda>e. case e of Colormap b \<Rightarrow> [b] | _ \<Rightarrow> []) tr)"

definition imshow_calls :: "event list \<Rightarrow> imshow_args list" where
  "imshow_calls tr = concat (map (\<lambda>e. case e of Imshow a \<Rightarrow> [a] | _ \<Rightarrow> []) tr)"

subsection \<open>Sample environments\<close>

definition tile_url :: string where
  "tile_url = ''https://blob/N00E033_Map.tif?sig=abc''"

definition tile :: dataset where
  "tile =
     \<lparr>ds_transform = \<lparr>coef_a = 1 / 12000, coef_b = 0, coef_c = 33,
                      coef_d = 0, coef_e = - (1 / 12000), coef_f = 3\<rparr>,
      ds_read = (\<lambda>b w. if b = 1 then Inr [[10, 20], [30, 1]] else Inl (LibraryError ''band'')),
      ds_colormap = (\<lambda>b. Inr [(0, [0, 0, 0, 255]), (1, [255, 0, 0, 255])])\<rparr>"

definition aoi :: window where
  "aoi = \<lparr>col_off = 11808, row_off = 17604, width = 11016, height = 8940\<rparr>"

definition env_one :: env where
  "env_one =
     \<lparr>get_items = (\<lambda>u c b. Inr [\<lparr>item_id = ''N00E033'', assets = [(''map'', \<lparr>href = tile_url\<rparr>)]\<rparr>]),
      rasterio_open = (\<lambda>k u. Inr tile),
      from_bounds = (\<lambda>l b r t a. Inr aoi)\<rparr>"

definition env_empty :: env where
  "env_empty = env_one\<lparr>get_items := (\<lambda>u c b. Inr [])\<rparr>"

definition env_no_map :: env where
  "env_no_map =
     env_one\<lparr>get_items := (\<lambda>u c b. Inr [\<lparr>item_id = ''N00E033'',
                                          assets = [(''thumbnail'', \<lparr>href = tile_url\<rparr>)]\<rparr>])\<rparr>"

definition two_colours :: "(int, int list) dict" where
  "two_colours = [(0, [0, 0, 0, 255]), (1, [255, 0, 0, 255])]"

text \<open>A table with components that 255 does not divide exactly.\<close>

definition mixed_colours :: "(int, int list) dict" where
  "mixed_colours = [(0, [0, 100, 0, 255]), (1, [255, 128, 51, 1])]"

section \<open>Properties\<close>

subsection \<open>Sequencing and primitives\<close>

lemma then_do_Inl: "then_do (tr, Inl e) k = (tr, Inl e)"
  by (simp add: then_do_def)

lemma then_do_Inr: "then_do (tr, Inr x) k = (tr @ fst (k x), snd (k x))"
  by (simp add: then_do_def split: prod.splits)

lemmas io_simps = then_do_Inl then_do_Inr ret_def lift_def call_def emit_def

lemma index0_Nil: "index0 [] = Inl IndexError"
  by (simp add: index0_def)

lemma index0_Cons: "index0 (x # xs) = Inr x"
  by (simp add: index0_def)

lemma split_not_Nil: "str_split s c \<noteq> []"
  by (induction s) (auto split: list.splits)

lemma hd_split: "hd (str_split s c) = takeWhile (\<lambda>x. x \<noteq> c) s"
proof (induction s)
  case Nil
  show ?case by simp
next
  case (Cons x xs)
  then show ?case
    using split_not_Nil [of xs c] by (auto split: list.splits)
qed

lemma index0_split: "index0 (str_split s c) = Inr (takeWhile (\<lambda>x. x \<noteq> c) s)"
  using split_not_Nil [of s c] hd_split [of s c]
  by (cases "str_split s c") (auto simp: index0_def)

subsection \<open>The colour table\<close>

lemma normalize_colormap_at_length: "normalize_colormap_at d js = Inr cm \<Longrightarrow> length cm = length js"
  by (induction js arbitrary: cm) (auto split: sum.splits)

lemma normalize_colormap_at_nth:
  "normalize_colormap_at d js = Inr cm \<Longrightarrow> i < length js \<Longrightarrow>
     \<exists>t. map_of d (js ! i) = Some t \<and> cm ! i = np_div255 t"
proof (induction js arbitrary: cm i)
  case Nil
  then show ?case by simp
next
  case (Cons j js)
  then show ?case
    by (cases i) (auto simp: getitem_int_def split: sum.splits option.splits)
qed

lemma normalize_colormap_at_total:
  "set js \<subseteq> fst ` set d \<Longrightarrow> \<exists>cm. normalize_colormap_at d js = Inr cm"
proof (induction js)
  case Nil
  show ?case by simp
next
  case (Cons j js)
  then obtain cm where cm: "normalize_colormap_at d js = Inr cm" by auto
  from Cons.prems have "j \<in> fst ` set d" by simp
  then obtain t where "map_of d j = Some t"
    by (metis domIff dom_map_of_conv_image_fst not_None_eq)
  with cm show ?case by (simp add: getitem_int_def)
qed

lemma normalize_length: "normalize_colormap d = Inr cm \<Longrightarrow> length cm = dict_len d"
  by (auto simp: normalize_colormap_def range_len_def dest: normalize_colormap_at_length)

lemma normalize_nth:
  "normalize_colormap d = Inr cm \<Longrightarrow> i < dict_len d \<Longrightarrow>
     \<exists>t. map_of d (int i) = Some t \<and> cm ! i = np_div255 t"
  using normalize_colormap_at_nth [of d "range_len d" cm i] by (simp add: normalize_colormap_def range_len_def)

subsection \<open>Division by 255 in binary64\<close>

lemma float64_quot_0: "float64_quot 0 255 = 0"
  by (simp add: float64_quot_def)

lemma float64_quot_255: "float64_quot 255 255 = 1"
  by code_simp

text \<open>The 256 bytes, each evaluated.\<close>

lemma close255_a: "list_all close255 [0..<64]"
  by code_simp

lemma close255_b: "list_all close255 [64..<128]"
  by code_simp

lemma close255_c: "list_all close255 [128..<192]"
  by code_simp

lemma close255_d: "list_all close255 [192..<256]"
  by code_simp

lemma close255_all:
  assumes "n < 256"
  shows "close255 n"
proof -
  have "(0 \<le> n \<and> n < 64) \<or> (64 \<le> n \<and> n < 128) \<or> (128 \<le> n \<and> n < 192) \<or>
        (192 \<le> n \<and> n < 256)"
    using assms by linarith
  then have "n \<in> {0..<64} \<or> n \<in> {64..<128} \<or> n \<in> {128..<192} \<or> n \<in> {192..<256}"
    by (simp only: atLeastLessThan_iff)
  then show ?thesis
    using close255_a close255_b close255_c close255_d
    unfolding list_all_iff set_upt by blast
qed

lemma div255_relative:
  assumes "0 \<le> c" and "c \<le> 255"
  shows "\<bar>float64_quot c 255 - of_int c / 255\<bar> \<le> of_int c / 255 / 2 ^ 53"
proof -
  have "nat c < 256" using assms by simp
  then have "close255 (nat c)" by (rule close255_all)
  then show ?thesis using assms by (simp add: close255_def)
qed

lemma div255_close:
  assumes "0 \<le> c" and "c \<le> 255"
  shows "\<bar>float64_quot c 255 - of_int c / 255\<bar> \<le> 1 / 2 ^ 53"
proof -
  have "(of_int c :: rat) \<le> 255" using assms by simp
  then have "(of_int c / 255 / 2 ^ 53 :: rat) \<le> 1 / 2 ^ 53"
    by (simp add: field_simps)
  with div255_relative [OF assms] show ?thesis by linarith
qed

lemma div255_strict:
  assumes "0 \<le> c" and "c < c'" and "c' \<le> 255"
  shows "float64_quot c 255 < float64_quot c' 255"
proof -
  have a: "\<bar>float64_quot c 255 - of_int c / 255\<bar> \<le> 1 / 2 ^ 53"
    using assms by (intro div255_close) simp_all
  have b: "\<bar>float64_quot c' 255 - of_int c' / 255\<bar> \<le> 1 / 2 ^ 53"
    using assms by (intro div255_close) simp_all
  have "c + 1 \<le> c'" using assms by simp
  then have "(of_int c + 1 :: rat) \<le> of_int c'"
    by (metis of_int_1 of_int_add of_int_le_iff)
  then have d: "(of_int c / 255 :: rat) + 1 / 255 \<le> of_int c' / 255"
    by (simp add: field_simps)
  have e: "(2 :: rat) / 2 ^ 53 < 1 / 255" by simp
  from a b d e show ?thesis by linarith
qed

lemma div255_order:
  assumes "0 \<le> c" "c \<le> 255" "0 \<le> c'" "c' \<le> 255"
  shows "(float64_quot c 255 \<le> float64_quot c' 255) = (c \<le> c')"
proof (cases "c \<le> c'")
  case True
  then have "c = c' \<or> c < c'" by auto
  then show ?thesis
    using True div255_strict [of c c'] assms by auto
next
  case False
  then have "c' < c" by simp
  then have "float64_quot c' 255 < float64_quot c 255"
    using assms by (intro div255_strict) simp_all
  with False show ?thesis by simp
qed

lemma div255_bounds:
  assumes "0 \<le> c" and "c \<le> 255"
  shows "0 \<le> float64_quot c 255 \<and> float64_quot c 255 \<le> 1"
  using div255_order [of 0 c] div255_order [of c 255] assms
  by (simp add: float64_quot_0 float64_quot_255)

lemma normalize_two_colours:
  "normalize_colormap two_colours = Inr [[0, 0, 0, 1], [1, 0, 0, 1]]"
  by (simp add: two_colours_def normalize_colormap_def range_len_def dict_len_def
        getitem_int_def np_div255_def upt_rec float64_quot_0 float64_quot_255)

text \<open>
  Claim C3. A colour table with the keys \<open>0 .. N-1\<close> and components between 0 and 255
  normalises without an exception to \<open>N\<close> rows, row \<open>i\<close> being entry \<open>i\<close> of the table
  with every component divided by 255 in binary64: as many components, each between 0
  and 1, each the exact quotient up to a relative error of \<open>2^-53\<close>, and ordered as the
  raw components are. The raw tuple (255, 0, 0) becomes (1, 0, 0).
\<close>

theorem normalize_unit_range:
  assumes keys: "fst ` set d = {0..<int (dict_len d)}"
    and bytes: "\<forall>t \<in> snd ` set d. \<forall>c \<in> set t. 0 \<le> c \<and> c \<le> 255"
  shows "\<exists>cm. normalize_colormap d = Inr cm \<and> length cm = dict_len d \<and>
           (\<forall>i < dict_len d. \<exists>t. map_of d (int i) = Some t \<and>
              length (cm ! i) = length t \<and>
              (\<forall>j < length t. cm ! i ! j = float64_quot (t ! j) 255 \<and>
                 0 \<le> cm ! i ! j \<and> cm ! i ! j \<le> 1 \<and>
                 \<bar>cm ! i ! j - of_int (t ! j) / 255\<bar> \<le> of_int (t ! j) / 255 / 2 ^ 53) \<and>
              (\<forall>j < length t. \<forall>k < length t.
                 (cm ! i ! j \<le> cm ! i ! k) = (t ! j \<le> t ! k))) \<and>
         normalize_colormap [(0, [255, 0, 0])] = Inr [[1, 0, 0]]"
proof -
  have "set (range_len d) \<subseteq> fst ` set d"
    using keys by (auto simp: range_len_def)
  then obtain cm where cm: "normalize_colormap d = Inr cm"
    using normalize_colormap_at_total [of "range_len d" d] by (auto simp: normalize_colormap_def)
  have len: "length cm = dict_len d"
    using cm by (rule normalize_length)
  have rows: "\<exists>t. map_of d (int i) = Some t \<and>
              length (cm ! i) = length t \<and>
              (\<forall>j < length t. cm ! i ! j = float64_quot (t ! j) 255 \<and>
                 0 \<le> cm ! i ! j \<and> cm ! i ! j \<le> 1 \<and>
                 \<bar>cm ! i ! j - of_int (t ! j) / 255\<bar> \<le> of_int (t ! j) / 255 / 2 ^ 53) \<and>
              (\<forall>j < length t. \<forall>k < length t.
                 (cm ! i ! j \<le> cm ! i ! k) = (t ! j \<le> t ! k))"
    if i: "i < dict_len d" for i
  proof -
    obtain t where t: "map_of d (int i) = Some t" and row: "cm ! i = np_div255 t"
      using normalize_nth [OF cm i] by blast
    from t have "(int i, t) \<in> set d" by (rule map_of_SomeD)
    then have "t \<in> snd ` set d" by force
    with bytes have b: "\<forall>c \<in> set t. 0 \<le> c \<and> c \<le> 255" by blast
    have byte: "0 \<le> t ! j \<and> t ! j \<le> 255" if "j < length t" for j
      using b that by simp
    have at: "cm ! i ! j = float64_quot (t ! j) 255" if "j < length t" for j
      using that row by (simp add: np_div255_def)
    have "cm ! i ! j = float64_quot (t ! j) 255 \<and> 0 \<le> cm ! i ! j \<and> cm ! i ! j \<le> 1 \<and>
          \<bar>cm ! i ! j - of_int (t ! j) / 255\<bar> \<le> of_int (t ! j) / 255 / 2 ^ 53"
      if "j < length t" for j
      using at [OF that] byte [OF that] div255_bounds [of "t ! j"] div255_relative [of "t ! j"]
      by simp
    moreover have "(cm ! i ! j \<le> cm ! i ! k) = (t ! j \<le> t ! k)"
      if "j < length t" "k < length t" for j k
      using at [OF that(1)] at [OF that(2)] byte [OF that(1)] byte [OF that(2)]
        div255_order [of "t ! j" "t ! k"]
      by simp
    moreover have "length (cm ! i) = length t"
      using row by (simp add: np_div255_def)
    ultimately show ?thesis using t by blast
  qed
  have ex: "normalize_colormap [(0, [255, 0, 0])] = Inr [[1, 0, 0]]"
    by (simp add: normalize_colormap_def range_len_def dict_len_def getitem_int_def
          np_div255_def float64_quot_0 float64_quot_255)
  show ?thesis using cm len rows ex by blast
qed

lemma np_div255_mixed:
  "np_div255 [255, 128, 51, 1] =
     [1, 282578800148737 / 562949953421312, 3602879701896397 / 18014398509481984,
      282578800148737 / 72057594037927936]"
  by code_simp

lemma np_div255_mixed0:
  "np_div255 [0, 100, 0, 255] = [0, 7064470003718425 / 18014398509481984, 0, 1]"
  by code_simp

theorem normalize_unit_range_witness:
  "fst ` set mixed_colours = {0..<int (dict_len mixed_colours)} \<and>
   normalize_colormap mixed_colours =
     Inr [[0, 7064470003718425 / 18014398509481984, 0, 1],
          [1, 282578800148737 / 562949953421312, 3602879701896397 / 18014398509481984,
           282578800148737 / 72057594037927936]]"
proof -
  have keys: "fst ` set mixed_colours = {0..<int (dict_len mixed_colours)}"
    by (auto simp: mixed_colours_def dict_len_def)
  have bytes: "\<forall>t \<in> snd ` set mixed_colours. \<forall>c \<in> set t. 0 \<le> c \<and> c \<le> 255"
    by (simp add: mixed_colours_def)
  from normalize_unit_range [OF keys bytes]
  obtain cm where cm: "normalize_colormap mixed_colours = Inr cm" by blast
  then have "cm = [[0, 7064470003718425 / 18014398509481984, 0, 1],
          [1, 282578800148737 / 562949953421312, 3602879701896397 / 18014398509481984,
           282578800148737 / 72057594037927936]]"
    by (simp add: mixed_colours_def normalize_colormap_def range_len_def dict_len_def
          getitem_int_def upt_rec np_div255_mixed np_div255_mixed0)
  with cm keys show ?thesis by simp
qed

subsection \<open>The cells, branch by branch\<close>

lemma cell_search_eq:
  "cell_search ev =
     (case get_items ev stac_url collections bbox_of_interest of
        Inl e \<Rightarrow> ([Search stac_url collections bbox_of_interest], Inl e)
      | Inr items \<Rightarrow>
          ([Search stac_url collections bbox_of_interest,
            Print (''Returned '' @ str_nat (length items) @ '' Items'')], Inr items))"
  by (simp add: cell_search_def io_simps split: sum.splits)

lemma cell_href_eq:
  "cell_href items =
     (case items of
        [] \<Rightarrow> ([], Inl IndexError)
      | it # _ \<Rightarrow>
          (case map_of (assets it) ''map'' of
             None \<Rightarrow> ([], Inl (KeyError (StrKey ''map'')))
           | Some a \<Rightarrow> ([Print (takeWhile (\<lambda>x. x \<noteq> CHR ''?'') (href a))], Inr (href a))))"
  by (simp add: cell_href_def io_simps index0_Nil index0_Cons getitem_str_def index0_split
           split: list.splits option.splits)

lemma from_bounds_star_bbox:
  "from_bounds_star ev bbox_of_interest t =
     ([FromBounds 33.984 0.788 34.902 1.533 t], from_bounds ev 33.984 0.788 34.902 1.533 t)"
  by (simp add: from_bounds_star_def bbox_of_interest_def call_def)

lemma cell_read_eq:
  "cell_read ev u =
     (case rasterio_open ev 0 u of
        Inl e \<Rightarrow> ([Open u], Inl e)
      | Inr src \<Rightarrow>
          (case from_bounds ev 33.984 0.788 34.902 1.533 (ds_transform src) of
             Inl e \<Rightarrow>
               ([Open u, FromBounds 33.984 0.788 34.902 1.533 (ds_transform src), Close], Inl e)
           | Inr w \<Rightarrow>
               (case ds_read src 1 w of
                  Inl e \<Rightarrow>
                    ([Open u, FromBounds 33.984 0.788 34.902 1.533 (ds_transform src),
                      Read 1 w, Close], Inl e)
                | Inr rd \<Rightarrow>
                    ([Open u, FromBounds 33.984 0.788 34.902 1.533 (ds_transform src),
                      Read 1 w, Close, Subplots 12 12, SetAxisOff,
                      Imshow \<lparr>im_data = rd, im_cmap = None, im_vmin = None, im_vmax = None,
                              im_interpolation = None\<rparr>],
                     Inr (w, rd)))))"
  by (simp add: cell_read_def with_open_def from_bounds_star_bbox io_simps split: sum.splits)

lemma cell_colormap_eq:
  "cell_colormap ev u rd =
     (case rasterio_open ev 1 u of
        Inl e \<Rightarrow> ([Open u], Inl e)
      | Inr src \<Rightarrow>
          (case ds_colormap src 1 of
             Inl e \<Rightarrow> ([Open u, Colormap 1, Close], Inl e)
           | Inr cdef \<Rightarrow>
               (case normalize_colormap cdef of
                  Inl e \<Rightarrow> ([Open u, Colormap 1, Close], Inl e)
                | Inr cm \<Rightarrow>
                    ([Open u, Colormap 1, Close, Subplots 12 12, SetAxisOff,
                      Imshow \<lparr>im_data = rd, im_cmap = Some cm, im_vmin = Some 0,
                              im_vmax = Some (int (dict_len cdef) - 1),
                              im_interpolation = Some ''nearest''\<rparr>],
                     Inr (cdef, cm)))))"
  by (simp add: cell_colormap_def with_open_def io_simps split: sum.splits)

lemmas cell_eqs = cell_search_eq cell_href_eq cell_read_eq cell_colormap_eq

lemmas call_defs = search_calls_def open_calls_def from_bounds_calls_def read_calls_def
  colormap_calls_def imshow_calls_def

lemma notebook_Inr:
  assumes "snd (notebook ev) = Inr g"
  shows "\<exists>it rest a src w src2.
           get_items ev stac_url collections bbox_of_interest = Inr (it # rest) \<and>
           map_of (assets it) ''map'' = Some a \<and>
           rasterio_open ev 0 (href a) = Inr src \<and>
           from_bounds ev 33.984 0.788 34.902 1.533 (ds_transform src) = Inr w \<and>
           ds_read src 1 w = Inr (g_raster_data g) \<and>
           rasterio_open ev 1 (href a) = Inr src2 \<and>
           ds_colormap src2 1 = Inr (g_colormap_def g) \<and>
           normalize_colormap (g_colormap_def g) = Inr (g_colormap g) \<and>
           g_items g = it # rest \<and> g_asset_href g = href a \<and> g_aoi_window g = w"
  using assms
  by (auto simp: notebook_def cell_eqs io_simps
           split: sum.splits list.splits option.splits prod.splits)

lemma notebook_run:
  assumes "get_items ev stac_url collections bbox_of_interest = Inr (it # rest)"
    and "map_of (assets it) ''map'' = Some a"
    and "rasterio_open ev 0 (href a) = Inr src"
    and "from_bounds ev 33.984 0.788 34.902 1.533 (ds_transform src) = Inr w"
    and "ds_read src 1 w = Inr rd"
    and "rasterio_open ev 1 (href a) = Inr src2"
    and "ds_colormap src2 1 = Inr cdef"
    and "normalize_colormap cdef = Inr cm"
  shows "notebook ev =
          ([Search stac_url collections bbox_of_interest,
            Print (''Returned '' @ str_nat (Suc (length rest)) @ '' Items''),
            Print (takeWhile (\<lambda>x. x \<noteq> CHR ''?'') (href a)),
            Open (href a), FromBounds 33.984 0.788 34.902 1.533 (ds_transform src),
            Read 1 w, Close, Subplots 12 12, SetAxisOff,
            Imshow \<lparr>im_data = rd, im_cmap = None, im_vmin = None, im_vmax = None,
                    im_interpolation = None\<rparr>,
            Open (href a), Colormap 1, Close, Subplots 12 12, SetAxisOff,
            Imshow \<lparr>im_data = rd, im_cmap = Some cm, im_vmin = Some 0,
                    im_vmax = Some (int (dict_len cdef) - 1),
                    im_interpolation = Some ''nearest''\<rparr>],
           Inr \<lparr>g_items = it # rest, g_asset_href = href a, g_aoi_window = w,
                g_raster_data = rd, g_colormap_def = cdef, g_colormap = cm\<rparr>)"
  using assms by (simp add: notebook_def cell_eqs io_simps)

subsection \<open>An empty search result\<close>

lemma str_nat_0: "str_nat 0 = ''0''"
  by code_simp

lemma str_nat_1: "str_nat (Suc 0) = ''1''"
  by code_simp

lemma notebook_env_empty:
  "notebook env_empty =
     ([Search stac_url collections bbox_of_interest, Print ''Returned 0 Items''], Inl IndexError)"
  by (simp add: notebook_def cell_eqs io_simps env_empty_def env_one_def str_nat_0)

text \<open>
  Claim C1 asks for an explicit "no data found" condition on an empty search result, in
  place of an index error. On the empty result the notebook ends with IndexError.
\<close>

theorem empty_result_counterexample:
  "snd (notebook env_empty) = Inl IndexError \<and> snd (notebook env_empty) \<noteq> Inl NoDataFound"
  by (simp add: notebook_env_empty)

text \<open>
  Claim C1, amended. When the search returns no item, \<open>items[0]\<close> raises IndexError
  right after the count is printed, before any asset is looked up. When the first item
  is there and has no asset named "map", the lookup raises KeyError("map"). The two
  cases end with different exceptions.
\<close>

theorem empty_result_index_error:
  "(get_items ev stac_url collections bbox_of_interest = Inr [] \<longrightarrow>
      notebook ev =
        ([Search stac_url collections bbox_of_interest, Print ''Returned 0 Items''],
         Inl IndexError)) \<and>
   (\<forall>it rest. get_items ev stac_url collections bbox_of_interest = Inr (it # rest) \<longrightarrow>
      map_of (assets it) ''map'' = None \<longrightarrow>
      notebook ev =
        ([Search stac_url collections bbox_of_interest,
          Print (''Returned '' @ str_nat (Suc (length rest)) @ '' Items'')],
         Inl (KeyError (StrKey ''map''))))"
  by (simp add: notebook_def cell_eqs io_simps str_nat_0)

theorem empty_result_index_error_witness:
  "notebook env_empty =
     ([Search stac_url collections bbox_of_interest, Print ''Returned 0 Items''],
      Inl IndexError) \<and>
   notebook env_no_map =
     ([Search stac_url collections bbox_of_interest, Print ''Returned 1 Items''],
      Inl (KeyError (StrKey ''map'')))"
proof -
  have e: "get_items env_empty stac_url collections bbox_of_interest = Inr []"
    by (simp add: env_empty_def env_one_def)
  have n: "get_items env_no_map stac_url collections bbox_of_interest
             = Inr [\<lparr>item_id = ''N00E033'', assets = [(''thumbnail'', \<lparr>href = tile_url\<rparr>)]\<rparr>]"
    by (simp add: env_no_map_def env_one_def)
  have m: "map_of (assets \<lparr>item_id = ''N00E033'',
                           assets = [(''thumbnail'', \<lparr>href = tile_url\<rparr>)]\<rparr>) ''map'' = None"
    by simp
  from empty_result_index_error [of env_empty] e
  have 1: "notebook env_empty =
     ([Search stac_url collections bbox_of_interest, Print ''Returned 0 Items''],
      Inl IndexError)" by blast
  from empty_result_index_error [of env_no_map] n m
  have "notebook env_no_map =
     ([Search stac_url collections bbox_of_interest,
       Print (''Returned '' @ str_nat (Suc (length ([]::item list))) @ '' Items'')],
      Inl (KeyError (StrKey ''map'')))" by blast
  then have 2: "notebook env_no_map =
     ([Search stac_url collections bbox_of_interest, Print ''Returned 1 Items''],
      Inl (KeyError (StrKey ''map'')))" by (simp add: str_nat_1)
  from 1 2 show ?thesis by simp
qed

subsection \<open>The asset URL\<close>

lemma takeWhile_base:
  "c \<notin> set base \<Longrightarrow> takeWhile (\<lambda>x. x \<noteq> c) (base @ c # q) = base"
  by (induction base) auto

text \<open>
  Claim C4. When the result list has a first item and that item has an asset named
  "map", \<open>asset_href\<close> is that asset's href, and what is printed is the href cut at its
  first question mark: the part before the signing parameters, or all of it when there
  are none.
\<close>

theorem asset_href_first_map_entry:
  assumes "items = it # rest" and "map_of (assets it) ''map'' = Some a"
  shows "cell_href items = ([Print (hd (str_split (href a) CHR ''?''))], Inr (href a)) \<and>
         (\<forall>base q. href a = base @ CHR ''?'' # q \<and> CHR ''?'' \<notin> set base \<longrightarrow>
            hd (str_split (href a) CHR ''?'') = base) \<and>
         (CHR ''?'' \<notin> set (href a) \<longrightarrow> hd (str_split (href a) CHR ''?'') = href a)"
  using assms by (auto simp: cell_href_eq hd_split takeWhile_base)

theorem asset_href_first_map_entry_witness:
  "cell_href [\<lparr>item_id = ''N00E033'', assets = [(''map'', \<lparr>href = ''https://blob/a.tif?sig=abc''\<rparr>)]\<rparr>]
     = ([Print ''https://blob/a.tif''], Inr ''https://blob/a.tif?sig=abc'')"
proof -
  have m: "map_of (assets \<lparr>item_id = ''N00E033'',
             assets = [(''map'', \<lparr>href = ''https://blob/a.tif?sig=abc''\<rparr>)]\<rparr>) ''map''
           = Some \<lparr>href = ''https://blob/a.tif?sig=abc''\<rparr>"
    by simp
  from asset_href_first_map_entry [OF refl m, of "[]"]
  show ?thesis by simp
qed

subsection \<open>A run that succeeds\<close>

lemma notebook_env_one:
  "notebook env_one =
     ([Search stac_url collections bbox_of_interest,
       Print ''Returned 1 Items'',
       Print ''https://blob/N00E033_Map.tif'',
       Open tile_url, FromBounds 33.984 0.788 34.902 1.533 (ds_transform tile),
       Read 1 aoi, Close, Subplots 12 12, SetAxisOff,
       Imshow \<lparr>im_data = [[10, 20], [30, 1]], im_cmap = None, im_vmin = None,
               im_vmax = None, im_interpolation = None\<rparr>,
       Open tile_url, Colormap 1, Close, Subplots 12 12, SetAxisOff,
       Imshow \<lparr>im_data = [[10, 20], [30, 1]],
               im_cmap = Some [[0, 0, 0, 1], [1, 0, 0, 1]], im_vmin = Some 0,
               im_vmax = Some 1, im_interpolation = Some ''nearest''\<rparr>],
      Inr \<lparr>g_items = [\<lparr>item_id = ''N00E033'', assets = [(''map'', \<lparr>href = tile_url\<rparr>)]\<rparr>],
           g_asset_href = tile_url, g_aoi_window = aoi,
           g_raster_data = [[10, 20], [30, 1]],
           g_colormap_def = two_colours,
           g_colormap = [[0, 0, 0, 1], [1, 0, 0, 1]]\<rparr>)"
proof -
  have n: "normalize_colormap two_colours = Inr [[0, 0, 0, 1], [1, 0, 0, 1]]"
    by (rule normalize_two_colours)
  have l: "int (dict_len two_colours) - 1 = 1"
    by (simp add: two_colours_def dict_len_def)
  have p: "takeWhile (\<lambda>x. x \<noteq> CHR ''?'') tile_url = ''https://blob/N00E033_Map.tif''"
    by (simp add: tile_url_def)
  have c: "ds_colormap tile 1 = Inr two_colours"
    by (simp add: tile_def two_colours_def)
  have r: "ds_read tile 1 aoi = Inr [[10, 20], [30, 1]]"
    by (simp add: tile_def)
  show ?thesis
    using notebook_run [of env_one "\<lparr>item_id = ''N00E033'', assets = [(''map'', \<lparr>href = tile_url\<rparr>)]\<rparr>"
        "[]" "\<lparr>href = tile_url\<rparr>" tile aoi "[[10, 20], [30, 1]]" tile two_colours
        "[[0, 0, 0, 1], [1, 0, 0, 1]]"] n l p c r
    by (simp add: env_one_def str_nat_1)
qed

lemma calls_simps:
  "search_calls [] = []" "search_calls (e # tr) = (case e of Search u c b \<Rightarrow> [(u, c, b)] | _ \<Rightarrow> []) @ search_calls tr"
  "open_calls [] = []" "open_calls (e # tr) = (case e of Open u \<Rightarrow> [u] | _ \<Rightarrow> []) @ open_calls tr"
  "from_bounds_calls [] = []"
  "from_bounds_calls (e # tr) = (case e of FromBounds l b r t a \<Rightarrow> [([l, b, r, t], a)] | _ \<Rightarrow> []) @ from_bounds_calls tr"
  "read_calls [] = []" "read_calls (e # tr) = (case e of Read b w \<Rightarrow> [(b, w)] | _ \<Rightarrow> []) @ read_calls tr"
  "colormap_calls [] = []" "colormap_calls (e # tr) = (case e of Colormap b \<Rightarrow> [b] | _ \<Rightarrow> []) @ colormap_calls tr"
  "imshow_calls [] = []" "imshow_calls (e # tr) = (case e of Imshow a \<Rightarrow> [a] | _ \<Rightarrow> []) @ imshow_calls tr"
  by (simp_all add: call_defs)


lemmas run_simps = notebook_def cell_eqs io_simps calls_simps

subsection \<open>What the rendering calls receive\<close>

text \<open>
  Claim C6. In a run that completes, the table read from band 1 of the second open has
  some length \<open>L\<close>; the first \<open>imshow\<close> call is given no bounds, and the colour-mapped
  call is given \<open>vmin = 0\<close> and \<open>vmax = L - 1\<close>, where \<open>L\<close> is also the number of rows
  of the colour map it is given.
\<close>

theorem imshow_bounds_match_table:
  assumes "snd (notebook ev) = Inr g"
  shows "map (\<lambda>a. (im_vmin a, im_vmax a)) (imshow_calls (fst (notebook ev)))
           = [(None, None), (Some 0, Some (int (dict_len (g_colormap_def g)) - 1))] \<and>
         map im_cmap (imshow_calls (fst (notebook ev))) = [None, Some (g_colormap g)] \<and>
         length (g_colormap g) = dict_len (g_colormap_def g) \<and>
         (\<exists>src. rasterio_open ev 1 (g_asset_href g) = Inr src \<and>
                ds_colormap src 1 = Inr (g_colormap_def g))"
proof -
  from notebook_Inr [OF assms] obtain it rest a src w src2 where
    h: "get_items ev stac_url collections bbox_of_interest = Inr (it # rest)"
       "map_of (assets it) ''map'' = Some a"
       "rasterio_open ev 0 (href a) = Inr src"
       "from_bounds ev 33.984 0.788 34.902 1.533 (ds_transform src) = Inr w"
       "ds_read src 1 w = Inr (g_raster_data g)"
       "rasterio_open ev 1 (href a) = Inr src2"
       "ds_colormap src2 1 = Inr (g_colormap_def g)"
       "normalize_colormap (g_colormap_def g) = Inr (g_colormap g)"
    and g: "g_asset_href g = href a"
    by blast
  have "length (g_colormap g) = dict_len (g_colormap_def g)"
    using h(8) by (rule normalize_length)
  then show ?thesis
    using h g by (simp add: notebook_run [OF h] calls_simps)
qed

theorem imshow_bounds_match_table_witness:
  "snd (notebook env_one) \<noteq> Inl IndexError \<and>
   map (\<lambda>a. (im_vmin a, im_vmax a)) (imshow_calls (fst (notebook env_one)))
     = [(None, None), (Some 0, Some 1)]"
proof -
  let ?g = "\<lparr>g_items = [\<lparr>item_id = ''N00E033'', assets = [(''map'', \<lparr>href = tile_url\<rparr>)]\<rparr>],
           g_asset_href = tile_url, g_aoi_window = aoi,
           g_raster_data = [[10, 20], [30, 1]],
           g_colormap_def = two_colours,
           g_colormap = [[0, 0, 0, 1], [1, 0, 0, 1]]\<rparr>"
  have ok: "snd (notebook env_one) = Inr ?g"
    by (simp add: notebook_env_one)
  have l: "int (dict_len two_colours) - 1 = 1"
    by (simp add: two_colours_def dict_len_def)
  from imshow_bounds_match_table [OF ok] l ok show ?thesis by simp
qed

text \<open>
  Claim C7. No run reads the band more than once. In a run that completes there is one
  read, of band 1 of the first open; what it returned is the variable \<open>raster_data\<close>,
  and both \<open>imshow\<close> calls are given exactly that array. (Library calls return values
  and do not write into their arguments in this model.)
\<close>

theorem raster_data_read_once:
  "length (read_calls (fst (notebook ev))) \<le> 1 \<and>
   (\<forall>g. snd (notebook ev) = Inr g \<longrightarrow>
      (\<exists>src. rasterio_open ev 0 (g_asset_href g) = Inr src \<and>
             read_calls (fst (notebook ev)) = [(1, g_aoi_window g)] \<and>
             ds_read src 1 (g_aoi_window g) = Inr (g_raster_data g)) \<and>
      map im_data (imshow_calls (fst (notebook ev))) = [g_raster_data g, g_raster_data g])"
proof -
  have once: "length (read_calls (fst (notebook ev))) \<le> 1"
    by (simp add: run_simps split: sum.splits list.splits option.splits prod.splits)
  have both: "(\<exists>src. rasterio_open ev 0 (g_asset_href g) = Inr src \<and>
             read_calls (fst (notebook ev)) = [(1, g_aoi_window g)] \<and>
             ds_read src 1 (g_aoi_window g) = Inr (g_raster_data g)) \<and>
      map im_data (imshow_calls (fst (notebook ev))) = [g_raster_data g, g_raster_data g]"
    if ok: "snd (notebook ev) = Inr g" for g
  proof -
    from notebook_Inr [OF ok] obtain it rest a src w src2 where
      h: "get_items ev stac_url collections bbox_of_interest = Inr (it # rest)"
         "map_of (assets it) ''map'' = Some a"
         "rasterio_open ev 0 (href a) = Inr src"
         "from_bounds ev 33.984 0.788 34.902 1.533 (ds_transform src) = Inr w"
         "ds_read src 1 w = Inr (g_raster_data g)"
         "rasterio_open ev 1 (href a) = Inr src2"
         "ds_colormap src2 1 = Inr (g_colormap_def g)"
         "normalize_colormap (g_colormap_def g) = Inr (g_colormap g)"
      and g: "g_asset_href g = href a" "g_aoi_window g = w"
      by blast
    show ?thesis
      using h g by (simp add: notebook_run [OF h] calls_simps)
  qed
  from once both show ?thesis by blast
qed

theorem raster_data_read_once_witness:
  "read_calls (fst (notebook env_one)) = [(1, aoi)] \<and>
   map im_data (imshow_calls (fst (notebook env_one))) = [[[10, 20], [30, 1]], [[10, 20], [30, 1]]]"
proof -
  let ?g = "\<lparr>g_items = [\<lparr>item_id = ''N00E033'', assets = [(''map'', \<lparr>href = tile_url\<rparr>)]\<rparr>],
           g_asset_href = tile_url, g_aoi_window = aoi,
           g_raster_data = [[10, 20], [30, 1]],
           g_colormap_def = two_colours,
           g_colormap = [[0, 0, 0, 1], [1, 0, 0, 1]]\<rparr>"
  have ok: "snd (notebook env_one) = Inr ?g"
    by (simp add: notebook_env_one)
  from raster_data_read_once [of env_one] ok
  have "(\<exists>src. rasterio_open env_one 0 (g_asset_href ?g) = Inr src \<and>
             read_calls (fst (notebook env_one)) = [(1, g_aoi_window ?g)] \<and>
             ds_read src 1 (g_aoi_window ?g) = Inr (g_raster_data ?g)) \<and>
      map im_data (imshow_calls (fst (notebook env_one))) = [g_raster_data ?g, g_raster_data ?g]"
    by blast
  then show ?thesis by auto
qed

subsection \<open>The bounding box\<close>

text \<open>
  Claim C8. The bounding box is the list [33.984, 0.788, 34.902, 1.533]. Every run
  searches once, with that list; whenever a window is computed it is computed from its
  four values as left, bottom, right and top; a run that completes computes one window.
\<close>

theorem bbox_of_interest_constant:
  "bbox_of_interest = [33.984, 0.788, 34.902, 1.533] \<and>
   search_calls (fst (notebook ev)) = [(stac_url, collections, [33.984, 0.788, 34.902, 1.533])] \<and>
   set (map fst (from_bounds_calls (fst (notebook ev)))) \<subseteq> {[33.984, 0.788, 34.902, 1.533]} \<and>
   (\<forall>g. snd (notebook ev) = Inr g \<longrightarrow>
      map fst (from_bounds_calls (fst (notebook ev))) = [[33.984, 0.788, 34.902, 1.533]])"
proof -
  have b: "bbox_of_interest = [33.984, 0.788, 34.902, 1.533]"
    by (simp add: bbox_of_interest_def)
  have s: "search_calls (fst (notebook ev))
             = [(stac_url, collections, [33.984, 0.788, 34.902, 1.533])]"
    by (simp add: run_simps b split: sum.splits list.splits option.splits prod.splits)
  have f: "set (map fst (from_bounds_calls (fst (notebook ev))))
             \<subseteq> {[33.984, 0.788, 34.902, 1.533]}"
    by (simp add: run_simps split: sum.splits list.splits option.splits prod.splits)
  have d: "map fst (from_bounds_calls (fst (notebook ev))) = [[33.984, 0.788, 34.902, 1.533]]"
    if "snd (notebook ev) = Inr g" for g
    using that
    by (auto simp: run_simps split: sum.splits list.splits option.splits prod.splits)
  from b s f d show ?thesis by blast
qed

theorem bbox_of_interest_constant_witness:
  "search_calls (fst (notebook env_one))
     = [(stac_url, collections, [33.984, 0.788, 34.902, 1.533])] \<and>
   map fst (from_bounds_calls (fst (notebook env_one))) = [[33.984, 0.788, 34.902, 1.533]]"
proof -
  let ?g = "\<lparr>g_items = [\<lparr>item_id = ''N00E033'', assets = [(''map'', \<lparr>href = tile_url\<rparr>)]\<rparr>],
           g_asset_href = tile_url, g_aoi_window = aoi,
           g_raster_data = [[10, 20], [30, 1]],
           g_colormap_def = two_colours,
           g_colormap = [[0, 0, 0, 1], [1, 0, 0, 1]]\<rparr>"
  have ok: "snd (notebook env_one) = Inr ?g"
    by (simp add: notebook_env_one)
  from bbox_of_interest_constant [of env_one] ok show ?thesis by blast
qed

subsection \<open>Bands\<close>

text \<open>
  Claim C10. Whatever the run, a band that is read is band 1 and a colour table that is
  fetched is that of band 1. In a run that completes, the asset is opened twice under
  the same URL, band 1 is read from the first open and the colour table of band 1 is
  fetched from the second; the second picture shows those pixels with that table,
  normalised.
\<close>

theorem band_consistency:
  "set (map fst (read_calls (fst (notebook ev)))) \<subseteq> {1} \<and>
   set (colormap_calls (fst (notebook ev))) \<subseteq> {1} \<and>
   (\<forall>g. snd (notebook ev) = Inr g \<longrightarrow>
      map fst (read_calls (fst (notebook ev))) = [1] \<and>
      colormap_calls (fst (notebook ev)) = [1] \<and>
      open_calls (fst (notebook ev)) = [g_asset_href g, g_asset_href g] \<and>
      (\<exists>src. rasterio_open ev 0 (g_asset_href g) = Inr src \<and>
             ds_read src 1 (g_aoi_window g) = Inr (g_raster_data g)) \<and>
      (\<exists>src. rasterio_open ev 1 (g_asset_href g) = Inr src \<and>
             ds_colormap src 1 = Inr (g_colormap_def g)) \<and>
      normalize_colormap (g_colormap_def g) = Inr (g_colormap g) \<and>
      last (imshow_calls (fst (notebook ev)))
        = \<lparr>im_data = g_raster_data g, im_cmap = Some (g_colormap g), im_vmin = Some 0,
           im_vmax = Some (int (dict_len (g_colormap_def g)) - 1),
           im_interpolation = Some ''nearest''\<rparr>)"
proof -
  have r: "set (map fst (read_calls (fst (notebook ev)))) \<subseteq> {1}"
    by (simp add: run_simps split: sum.splits list.splits option.splits prod.splits)
  have c: "set (colormap_calls (fst (notebook ev))) \<subseteq> {1}"
    by (simp add: run_simps split: sum.splits list.splits option.splits prod.splits)
  have d: "map fst (read_calls (fst (notebook ev))) = [1] \<and>
      colormap_calls (fst (notebook ev)) = [1] \<and>
      open_calls (fst (notebook ev)) = [g_asset_href g, g_asset_href g] \<and>
      (\<exists>src. rasterio_open ev 0 (g_asset_href g) = Inr src \<and>
             ds_read src 1 (g_aoi_window g) = Inr (g_raster_data g)) \<and>
      (\<exists>src. rasterio_open ev 1 (g_asset_href g) = Inr src \<and>
             ds_colormap src 1 = Inr (g_colormap_def g)) \<and>
      normalize_colormap (g_colormap_def g) = Inr (g_colormap g) \<and>
      last (imshow_calls (fst (notebook ev)))
        = \<lparr>im_data = g_raster_data g, im_cmap = Some (g_colormap g), im_vmin = Some 0,
           im_vmax = Some (int (dict_len (g_colormap_def g)) - 1),
           im_interpolation = Some ''nearest''\<rparr>"
    if ok: "snd (notebook ev) = Inr g" for g
  proof -
    from notebook_Inr [OF ok] obtain it rest a src w src2 where
      h: "get_items ev stac_url collections bbox_of_interest = Inr (it # rest)"
         "map_of (assets it) ''map'' = Some a"
         "rasterio_open ev 0 (href a) = Inr src"
         "from_bounds ev 33.984 0.788 34.902 1.533 (ds_transform src) = Inr w"
         "ds_read src 1 w = Inr (g_raster_data g)"
         "rasterio_open ev 1 (href a) = Inr src2"
         "ds_colormap src2 1 = Inr (g_colormap_def g)"
         "normalize_colormap (g_colormap_def g) = Inr (g_colormap g)"
      and g: "g_asset_href g = href a" "g_aoi_window g = w"
      by blast
    show ?thesis
      using h g by (simp add: notebook_run [OF h] calls_simps)
  qed
  from r c d show ?thesis by blast
qed

theorem band_consistency_witness:
  "map fst (read_calls (fst (notebook env_one))) = [1] \<and>
   colormap_calls (fst (notebook env_one)) = [1] \<and>
   open_calls (fst (notebook env_one)) = [tile_url, tile_url]"
proof -
  let ?g = "\<lparr>g_items = [\<lparr>item_id = ''N00E033'', assets = [(''map'', \<lparr>href = tile_url\<rparr>)]\<rparr>],
           g_asset_href = tile_url, g_aoi_window = aoi,
           g_raster_data = [[10, 20], [30, 1]],
           g_colormap_def = two_colours,
           g_colormap = [[0, 0, 0, 1], [1, 0, 0, 1]]\<rparr>"
  have ok: "snd (notebook env_one) = Inr ?g"
    by (simp add: notebook_env_one)
  from band_consistency [of env_one] ok
  have "map fst (read_calls (fst (notebook env_one))) = [1] \<and>
      colormap_calls (fst (notebook env_one)) = [1] \<and>
      open_calls (fst (notebook env_one)) = [g_asset_href ?g, g_asset_href ?g]"
    by blast
  then show ?thesis by simp
qed

end
